theory Spec2Isabelle
  imports Complex_Main
begin

section \<open>The reconnecting connection manager of reconnecting-websocket.js\<close>

text \<open>
  The source is one constructor, \<^verbatim>\<open>ReconnectingWebSocket(url, protocols, options)\<close>, whose
  methods \<^verbatim>\<open>open\<close>, \<^verbatim>\<open>send\<close>, \<^verbatim>\<open>close\<close> and \<^verbatim>\<open>refresh\<close> and whose
  transport handlers \<^verbatim>\<open>ws.onopen\<close>, \<^verbatim>\<open>ws.onclose\<close>, \<^verbatim>\<open>ws.onmessage\<close> and
  \<^verbatim>\<open>ws.onerror\<close> share the variables of the constructor's closure. The embedding is
  explicit state passing over one record: the public properties of the object, the private
  variables \<^verbatim>\<open>ws\<close>, \<^verbatim>\<open>forcedClose\<close> and \<^verbatim>\<open>timedOut\<close>, and what the code asks of its
  collaborators: the transports it has created with \<^verbatim>\<open>new WebSocket\<close>, the timers it has
  set with \<^verbatim>\<open>setTimeout\<close>, the events it has dispatched and the lines it has logged.

  JavaScript numbers are taken as reals (the delays of the backoff are products and powers of
  the configured numbers; rounding of doubles is not modelled), counters as naturals.
  The listeners registered on \<^verbatim>\<open>eventTarget\<close> are the caller's code and are not run: a
  dispatched event is appended to the list of events. Time is not measured: a pending timer
  may fire whenever the execution says so, and its delay is kept with it.
\<close>

subsection \<open>Data\<close>

text \<open>\<^verbatim>\<open>WebSocket.CONNECTING\<close>, \<^verbatim>\<open>OPEN\<close>, \<^verbatim>\<open>CLOSING\<close>, \<^verbatim>\<open>CLOSED\<close>.\<close>

datatype ready_state = CONNECTING | OPEN | CLOSING | CLOSED

text \<open>The fields of a transport's close event that the handlers read.\<close>

datatype close_event = CloseEvent (code: int) (reason: string) (wasClean: bool)

text \<open>
  The events dispatched on \<^verbatim>\<open>eventTarget\<close>, with their \<^verbatim>\<open>detail\<close>: \<open>connecting\<close>
  has none on a fresh open and the close event's fields after a disconnect, \<open>open\<close>
  carries \<^verbatim>\<open>isReconnect\<close>, \<open>message\<close> the data, \<open>close\<close> the close event's
  fields, \<open>error\<close> nothing.
\<close>

datatype event =
    EvConnecting "close_event option"
  | EvOpen bool
  | EvMessage string
  | EvClose close_event
  | EvError

text \<open>
  The two callbacks handed to \<^verbatim>\<open>setTimeout\<close>: the connection timeout of \<^verbatim>\<open>open\<close>, which
  closes over \<^verbatim>\<open>localWs\<close>, and the delayed retry of \<^verbatim>\<open>ws.onclose\<close>.
\<close>

datatype timer = ConnectionTimeout nat | Reconnect

text \<open>
  The variables of one call of \<^verbatim>\<open>open\<close> that its handlers close over: the parameter
  \<^verbatim>\<open>reconnectAttempt\<close> (which \<^verbatim>\<open>ws.onopen\<close> overwrites) and the timer id \<^verbatim>\<open>timeout\<close>.
\<close>

record wiring =
  reconnectAttempt :: bool
  timeout :: nat

text \<open>
  A transport (a \<^verbatim>\<open>WebSocket\<close> object): the arguments of its constructor, the property
  \<^verbatim>\<open>binaryType\<close> that \<^verbatim>\<open>open\<close> assigns, its own \<^verbatim>\<open>readyState\<close> and negotiated
  \<^verbatim>\<open>protocol\<close>, the handlers assigned to it (\<open>None\<close> while \<^verbatim>\<open>onopen\<close>, \<^verbatim>\<open>onclose\<close>,
  \<^verbatim>\<open>onmessage\<close> and \<^verbatim>\<open>onerror\<close> are unset: \<^verbatim>\<open>open\<close> assigns the four together), the
  arguments of the call of its \<^verbatim>\<open>close\<close> that started its closing, and the data passed
  to its \<^verbatim>\<open>send\<close>.
\<close>

record transport =
  ws_url :: string
  ws_protocols :: "string list"
  ws_binaryType :: string
  ws_readyState :: ready_state
  ws_protocol :: string
  ws_handlers :: "wiring option"
  ws_closeArgs :: "(int option \<times> string option) option"
  ws_sent :: "string list"

text \<open>
  The manager and its collaborators. \<open>ws\<close> is the index of the transport the variable
  \<^verbatim>\<open>ws\<close> refers to (\<open>None\<close> for \<^verbatim>\<open>undefined\<close> and \<^verbatim>\<open>null\<close>); \<open>timers\<close> are the pending
  timers (id, delay, callback); \<open>closeReport\<close> says how transports report the closure that
  a call of their \<^verbatim>\<open>close\<close> causes: \<open>None\<close> when the close event is delivered later by
  the event loop (as browsers do), \<open>Some ev\<close> when \<^verbatim>\<open>close\<close> invokes \<^verbatim>\<open>onclose\<close> with
  \<open>ev\<close> before it returns.
\<close>

record rws =
  debug :: bool
  automaticOpen :: bool
  reconnectInterval :: real
  maxReconnectInterval :: real
  reconnectDecay :: real
  timeoutInterval :: real
  maxReconnectAttempts :: "int option"
  binaryType :: string
  url :: string
  protocols :: "string list option"
  reconnectAttempts :: nat
  readyState :: ready_state
  protocol :: "string option"
  ws :: "nat option"
  forcedClose :: bool
  timedOut :: bool
  debugAll :: bool
  closeReport :: "close_event option"
  transports :: "transport list"
  timers :: "(nat \<times> real \<times> timer) list"
  nextTimer :: nat
  events :: "event list"
  console :: "string list"

text \<open>The \<^verbatim>\<open>options\<close> argument: a field is \<open>None\<close> when \<^verbatim>\<open>typeof options[key]\<close> is
  \<^verbatim>\<open>'undefined'\<close>.\<close>

record options =
  opt_debug :: "bool option"
  opt_automaticOpen :: "bool option"
  opt_reconnectInterval :: "real option"
  opt_maxReconnectInterval :: "real option"
  opt_reconnectDecay :: "real option"
  opt_timeoutInterval :: "real option"
  opt_maxReconnectAttempts :: "int option option"
  opt_binaryType :: "string option"

text \<open>What a call of \<^verbatim>\<open>send\<close> throws: the manager's own string, or the transport's
  exception (a \<^verbatim>\<open>WebSocket\<close> that is still connecting refuses to send).\<close>

datatype error = Thrown string | TransportInvalidState

subsection \<open>The collaborators\<close>

definition lookup_ws :: "rws \<Rightarrow> nat \<Rightarrow> transport option" where
  "lookup_ws s w = (if w < length (transports s) then Some (transports s ! w) else None)"

definition update_ws :: "nat \<Rightarrow> (transport \<Rightarrow> transport) \<Rightarrow> rws \<Rightarrow> rws" where
  "update_ws w f s =
     (if w < length (transports s)
      then s\<lparr>transports := (transports s)[w := f (transports s ! w)]\<rparr>
      else s)"

text \<open>\<^verbatim>\<open>if (self.debug || ReconnectingWebSocket.debugAll) console.debug(..., label, ...)\<close>;
  of the logged arguments the label is kept.\<close>

definition trace :: "string \<Rightarrow> rws \<Rightarrow> rws" where
  "trace label s = (if debug s \<or> debugAll s then s\<lparr>console := console s @ [label]\<rparr> else s)"

definition dispatchEvent :: "event \<Rightarrow> rws \<Rightarrow> rws" where
  "dispatchEvent e s = s\<lparr>events := events s @ [e]\<rparr>"

definition setTimeout :: "timer \<Rightarrow> real \<Rightarrow> rws \<Rightarrow> nat \<times> rws" where
  "setTimeout cb delay s =
     (nextTimer s,
      s\<lparr>timers := timers s @ [(nextTimer s, delay, cb)], nextTimer := Suc (nextTimer s)\<rparr>)"

text \<open>\<^verbatim>\<open>clearTimeout(id)\<close>; \<open>None\<close> is \<^verbatim>\<open>clearTimeout(undefined)\<close>, which clears nothing.\<close>

definition clearTimeout :: "nat option \<Rightarrow> rws \<Rightarrow> rws" where
  "clearTimeout tid s =
     (case tid of
        None \<Rightarrow> s
      | Some i \<Rightarrow> s\<lparr>timers := filter (\<lambda>t. fst t \<noteq> i) (timers s)\<rparr>)"

text \<open>\<^verbatim>\<open>new WebSocket(self.url, protocols || [])\<close>: a transport that is connecting and has
  no handlers yet; its index is returned.\<close>

definition new_WebSocket :: "rws \<Rightarrow> nat \<times> rws" where
  "new_WebSocket s =
     (length (transports s),
      s\<lparr>transports := transports s @
           [\<lparr>ws_url = url s,
             ws_protocols = (case protocols s of None \<Rightarrow> [] | Some ps \<Rightarrow> ps),
             ws_binaryType = ''blob'',
             ws_readyState = CONNECTING,
             ws_protocol = [],
             ws_handlers = None,
             ws_closeArgs = None,
             ws_sent = []\<rparr>]\<rparr>)"

subsection \<open>The handlers that \<^verbatim>\<open>open\<close> assigns\<close>

text \<open>
  \<^verbatim>\<open>ws.onopen\<close> of the transport \<open>w\<close>. It clears the connection timer of its own call of
  \<^verbatim>\<open>open\<close>, then reads \<^verbatim>\<open>ws.protocol\<close> through the shared variable \<^verbatim>\<open>ws\<close>: when that
  is \<^verbatim>\<open>null\<close> the read throws and the rest of the handler does not run.
\<close>

definition onopen :: "nat \<Rightarrow> rws \<Rightarrow> rws" where
  "onopen w s =
     (case lookup_ws s w of
        None \<Rightarrow> s
      | Some tr \<Rightarrow>
          (case ws_handlers tr of
             None \<Rightarrow> s
           | Some h \<Rightarrow>
               (let s1 = trace ''onopen'' (clearTimeout (Some (timeout h)) s) in
                case ws s1 of
                  None \<Rightarrow> s1
                | Some cur \<Rightarrow>
                    (case lookup_ws s1 cur of
                       None \<Rightarrow> s1
                     | Some c \<Rightarrow>
                         (let s2 = s1\<lparr>protocol := Some (ws_protocol c),
                                      readyState := OPEN,
                                      reconnectAttempts := 0\<rparr>;
                              s3 = dispatchEvent (EvOpen (reconnectAttempt h)) s2
                          in update_ws w
                               (\<lambda>t. t\<lparr>ws_handlers := Some (h\<lparr>reconnectAttempt := False\<rparr>)\<rparr>)
                               s3)))))"

text \<open>
  \<^verbatim>\<open>ws.onclose\<close> of the transport \<open>w\<close>. The handler declares \<^verbatim>\<open>var timeout\<close> further
  down in its own body, so the \<^verbatim>\<open>timeout\<close> of its first line is that local variable,
  still \<^verbatim>\<open>undefined\<close>: \<^verbatim>\<open>clearTimeout(timeout)\<close> clears nothing here. The retry is set
  with the delay \<^verbatim>\<open>timeout > self.maxReconnectInterval ? self.maxReconnectInterval : timeout\<close>.
\<close>

definition onclose :: "nat \<Rightarrow> close_event \<Rightarrow> rws \<Rightarrow> rws" where
  "onclose w ev s =
     (case lookup_ws s w of
        None \<Rightarrow> s
      | Some tr \<Rightarrow>
          (case ws_handlers tr of
             None \<Rightarrow> s
           | Some h \<Rightarrow>
               (let s1 = (clearTimeout None s)\<lparr>ws := None\<rparr> in
                if forcedClose s1 then
                  dispatchEvent (EvClose ev) (s1\<lparr>readyState := CLOSED\<rparr>)
                else
                  (let s2 = dispatchEvent (EvConnecting (Some ev)) (s1\<lparr>readyState := CONNECTING\<rparr>);
                       s3 = (if \<not> reconnectAttempt h \<and> \<not> timedOut s2
                             then dispatchEvent (EvClose ev) (trace ''onclose'' s2)
                             else s2);
                       timeout' = reconnectInterval s3 * reconnectDecay s3 ^ reconnectAttempts s3
                   in snd (setTimeout Reconnect
                             (if timeout' > maxReconnectInterval s3
                              then maxReconnectInterval s3 else timeout')
                             s3)))))"

definition onmessage :: "nat \<Rightarrow> string \<Rightarrow> rws \<Rightarrow> rws" where
  "onmessage w data s =
     (case lookup_ws s w of
        None \<Rightarrow> s
      | Some tr \<Rightarrow>
          (case ws_handlers tr of
             None \<Rightarrow> s
           | Some h \<Rightarrow> dispatchEvent (EvMessage data) (trace ''onmessage'' s)))"

definition onerror :: "nat \<Rightarrow> rws \<Rightarrow> rws" where
  "onerror w s =
     (case lookup_ws s w of
        None \<Rightarrow> s
      | Some tr \<Rightarrow>
          (case ws_handlers tr of
             None \<Rightarrow> s
           | Some h \<Rightarrow> dispatchEvent EvError (trace ''onerror'' s)))"

subsection \<open>The transport's own methods\<close>

text \<open>
  \<^verbatim>\<open>w.close(code, reason)\<close> of a transport: nothing on a transport that is closing or
  closed; otherwise the transport starts closing, and reports its closure either later or,
  when \<open>closeReport\<close> says so, before \<^verbatim>\<open>close\<close> returns. The transport's checks of the
  code and the reason are not modelled.
\<close>

definition ws_close :: "nat \<Rightarrow> int option \<Rightarrow> string option \<Rightarrow> rws \<Rightarrow> rws" where
  "ws_close w c r s =
     (case lookup_ws s w of
        None \<Rightarrow> s
      | Some tr \<Rightarrow>
          if ws_readyState tr = CLOSING \<or> ws_readyState tr = CLOSED then s
          else
            (case closeReport s of
               None \<Rightarrow>
                 update_ws w (\<lambda>t. t\<lparr>ws_readyState := CLOSING, ws_closeArgs := Some (c, r)\<rparr>) s
             | Some ev \<Rightarrow>
                 onclose w ev
                   (update_ws w
                      (\<lambda>t. t\<lparr>ws_readyState := CLOSED, ws_closeArgs := Some (c, r)\<rparr>) s)))"

text \<open>\<^verbatim>\<open>w.send(data)\<close> of a transport: an exception while it is connecting, the data taken
  while it is open, discarded afterwards.\<close>

definition ws_send :: "nat \<Rightarrow> string \<Rightarrow> rws \<Rightarrow> error + rws" where
  "ws_send w data s =
     (case lookup_ws s w of
        None \<Rightarrow> Inl TransportInvalidState
      | Some tr \<Rightarrow>
          if ws_readyState tr = CONNECTING then Inl TransportInvalidState
          else if ws_readyState tr = OPEN
          then Inr (update_ws w (\<lambda>t. t\<lparr>ws_sent := ws_sent t @ [data]\<rparr>) s)
          else Inr s)"

subsection \<open>The manager's methods\<close>

text \<open>
  \<^verbatim>\<open>this.maxReconnectAttempts && this.reconnectAttempts > this.maxReconnectAttempts\<close>:
  \<^verbatim>\<open>null\<close> and 0 are falsy, any other number is compared.
\<close>

definition cap_exceeded :: "int option \<Rightarrow> nat \<Rightarrow> bool" where
  "cap_exceeded maxAttempts attempts =
     (case maxAttempts of
        None \<Rightarrow> False
      | Some m \<Rightarrow> m \<noteq> 0 \<and> int attempts > m)"

text \<open>
  \<^verbatim>\<open>this.open(reconnectAttempt)\<close>. The transport is created and assigned to \<^verbatim>\<open>ws\<close> first;
  the test of \<^verbatim>\<open>maxReconnectAttempts\<close> comes after it and returns before any handler is
  assigned and before the connection timer is set.
\<close>

definition open_rws :: "bool \<Rightarrow> rws \<Rightarrow> rws" where
  "open_rws reconnectAttempt' s =
     (let (w, s0) = new_WebSocket s;
          s1 = update_ws w (\<lambda>t. t\<lparr>ws_binaryType := binaryType s0\<rparr>) (s0\<lparr>ws := Some w\<rparr>)
      in if reconnectAttempt' \<and> cap_exceeded (maxReconnectAttempts s1) (reconnectAttempts s1)
         then s1
         else
           (let s2 = (if reconnectAttempt' then s1
                      else (dispatchEvent (EvConnecting None) s1)\<lparr>reconnectAttempts := 0\<rparr>);
                s3 = trace ''attempt-connect'' s2;
                (t, s4) = setTimeout (ConnectionTimeout w) (timeoutInterval s3) s3
            in update_ws w
                 (\<lambda>tr. tr\<lparr>ws_handlers :=
                           Some \<lparr>reconnectAttempt = reconnectAttempt', timeout = t\<rparr>\<rparr>)
                 s4))"

text \<open>\<^verbatim>\<open>this.send(data)\<close>: the result is the exception thrown, or the state after the
  transport has taken the data.\<close>

definition send :: "string \<Rightarrow> rws \<Rightarrow> error + rws" where
  "send data s =
     (case ws s of
        Some w \<Rightarrow> ws_send w data (trace ''send'' s)
      | None \<Rightarrow> Inl (Thrown ''INVALID_STATE_ERR : Pausing to reconnect websocket''))"

text \<open>\<^verbatim>\<open>this.close(code, reason)\<close>; an argument left out is \<open>None\<close>.\<close>

definition close :: "int option \<Rightarrow> string option \<Rightarrow> rws \<Rightarrow> rws" where
  "close c r s =
     (let c' = (case c of None \<Rightarrow> 1000 | Some n \<Rightarrow> n);
          s1 = s\<lparr>forcedClose := True\<rparr>
      in case ws s1 of
           Some w \<Rightarrow> ws_close w (Some c') r s1
         | None \<Rightarrow> s1)"

definition refresh :: "rws \<Rightarrow> rws" where
  "refresh s = (case ws s of Some w \<Rightarrow> ws_close w None None s | None \<Rightarrow> s)"

subsection \<open>The timer callbacks\<close>

text \<open>The connection timeout set by \<^verbatim>\<open>open\<close>, and the retry set by \<^verbatim>\<open>ws.onclose\<close>.\<close>

definition connection_timeout :: "nat \<Rightarrow> rws \<Rightarrow> rws" where
  "connection_timeout localWs s =
     (let s1 = (trace ''connection-timeout'' s)\<lparr>timedOut := True\<rparr>;
          s2 = ws_close localWs None None s1
      in s2\<lparr>timedOut := False\<rparr>)"

definition reconnect :: "rws \<Rightarrow> rws" where
  "reconnect s = open_rws True (s\<lparr>reconnectAttempts := Suc (reconnectAttempts s)\<rparr>)"

subsection \<open>The constructor\<close>

definition ReconnectingWebSocket ::
  "string \<Rightarrow> string list option \<Rightarrow> options \<Rightarrow> bool \<Rightarrow> close_event option \<Rightarrow> rws" where
  "ReconnectingWebSocket u ps opts dbgAll report =
     (let s = \<lparr>debug = (case opt_debug opts of None \<Rightarrow> False | Some v \<Rightarrow> v),
               automaticOpen = (case opt_automaticOpen opts of None \<Rightarrow> True | Some v \<Rightarrow> v),
               reconnectInterval =
                 (case opt_reconnectInterval opts of None \<Rightarrow> 1000 | Some v \<Rightarrow> v),
               maxReconnectInterval =
                 (case opt_maxReconnectInterval opts of None \<Rightarrow> 30000 | Some v \<Rightarrow> v),
               reconnectDecay =
                 (case opt_reconnectDecay opts of None \<Rightarrow> 3 / 2 | Some v \<Rightarrow> v),
               timeoutInterval =
                 (case opt_timeoutInterval opts of None \<Rightarrow> 2000 | Some v \<Rightarrow> v),
               maxReconnectAttempts =
                 (case opt_maxReconnectAttempts opts of None \<Rightarrow> None | Some v \<Rightarrow> v),
               binaryType = (case opt_binaryType opts of None \<Rightarrow> ''blob'' | Some v \<Rightarrow> v),
               url = u,
               protocols = ps,
               reconnectAttempts = 0,
               readyState = CONNECTING,
               protocol = None,
               ws = None,
               forcedClose = False,
               timedOut = False,
               debugAll = dbgAll,
               closeReport = report,
               transports = [],
               timers = [],
               nextTimer = 0,
               events = [],
               console = []\<rparr>
      in if automaticOpen s then open_rws False s else s)"

definition no_options :: options where
  "no_options =
     \<lparr>opt_debug = None, opt_automaticOpen = None, opt_reconnectInterval = None,
      opt_maxReconnectInterval = None, opt_reconnectDecay = None, opt_timeoutInterval = None,
      opt_maxReconnectAttempts = None, opt_binaryType = None\<rparr>"

subsection \<open>Executions\<close>

text \<open>
  What can happen to a manager: the caller invokes a method, a pending timer fires, or a
  transport delivers an event. A transport delivers \<open>open\<close> only while it is connecting,
  \<open>message\<close> only while it is open, \<open>error\<close> and \<open>close\<close> only until it is closed; a
  timer fires only while it is pending. An input that cannot happen leaves the state as it
  is, and so does a call of \<^verbatim>\<open>send\<close> that throws.
\<close>

datatype input =
    CallOpen bool
  | CallSend string
  | CallClose "int option" "string option"
  | CallRefresh
  | Fire nat
  | WsOpen nat string
  | WsMessage nat string
  | WsError nat
  | WsClose nat close_event

definition status :: "rws \<Rightarrow> nat \<Rightarrow> ready_state option" where
  "status s w = map_option ws_readyState (lookup_ws s w)"

definition pending :: "rws \<Rightarrow> nat \<Rightarrow> timer option" where
  "pending s i = map_option snd (map_of (timers s) i)"

fun step :: "input \<Rightarrow> rws \<Rightarrow> rws" where
  "step (CallOpen b) s = open_rws b s"
| "step (CallSend d) s = (case send d s of Inl e \<Rightarrow> s | Inr s' \<Rightarrow> s')"
| "step (CallClose c r) s = close c r s"
| "step CallRefresh s = refresh s"
| "step (Fire i) s =
     (case pending s i of
        None \<Rightarrow> s
      | Some (ConnectionTimeout localWs) \<Rightarrow> connection_timeout localWs (clearTimeout (Some i) s)
      | Some Reconnect \<Rightarrow> reconnect (clearTimeout (Some i) s))"
| "step (WsOpen w p) s =
     (if status s w = Some CONNECTING
      then onopen w (update_ws w (\<lambda>t. t\<lparr>ws_readyState := OPEN, ws_protocol := p\<rparr>) s)
      else s)"
| "step (WsMessage w d) s = (if status s w = Some OPEN then onmessage w d s else s)"
| "step (WsError w) s =
     (if status s w \<noteq> None \<and> status s w \<noteq> Some CLOSED then onerror w s else s)"
| "step (WsClose w ev) s =
     (if status s w \<noteq> None \<and> status s w \<noteq> Some CLOSED
      then onclose w ev (update_ws w (\<lambda>t. t\<lparr>ws_readyState := CLOSED\<rparr>) s)
      else s)"

fun run :: "rws \<Rightarrow> input list \<Rightarrow> rws" where
  "run s [] = s"
| "run s (i # is) = run (step i s) is"

subsection \<open>Observations on a state\<close>

text \<open>A transport is live until it is closed; it is wired when \<^verbatim>\<open>open\<close> has assigned it
  the manager's handlers.\<close>

definition live :: "rws \<Rightarrow> nat \<Rightarrow> bool" where
  "live s w = (case lookup_ws s w of None \<Rightarrow> False | Some tr \<Rightarrow> ws_readyState tr \<noteq> CLOSED)"

definition wired :: "rws \<Rightarrow> nat \<Rightarrow> bool" where
  "wired s w = (case lookup_ws s w of None \<Rightarrow> False | Some tr \<Rightarrow> ws_handlers tr \<noteq> None)"

definition live_transports :: "rws \<Rightarrow> nat list" where
  "live_transports s = filter (live s) [0..<length (transports s)]"

text \<open>The transport that \<^verbatim>\<open>open\<close> leaves behind, with the handlers \<open>h\<close>.\<close>

definition fresh_transport :: "rws \<Rightarrow> wiring option \<Rightarrow> transport" where
  "fresh_transport s h =
     \<lparr>ws_url = url s,
      ws_protocols = (case protocols s of None \<Rightarrow> [] | Some ps \<Rightarrow> ps),
      ws_binaryType = binaryType s,
      ws_readyState = CONNECTING,
      ws_protocol = [],
      ws_handlers = h,
      ws_closeArgs = None,
      ws_sent = []\<rparr>"


text \<open>The pending retries, and the delay the code computes for the next one.\<close>

definition retry_timers :: "rws \<Rightarrow> (nat \<times> real \<times> timer) list" where
  "retry_timers s = filter (\<lambda>t. snd (snd t) = Reconnect) (timers s)"

definition backoff :: "rws \<Rightarrow> real" where
  "backoff s =
     min (reconnectInterval s * reconnectDecay s ^ reconnectAttempts s) (maxReconnectInterval s)"

text \<open>
  An attempt is in flight and nothing else is: \<^verbatim>\<open>ws\<close> refers to a live transport with
  the manager's handlers, the caller has not closed, no retry is pending, no cap on the
  retries is configured (timer ids are below the next id to be given out).
\<close>

definition attempting :: "rws \<Rightarrow> bool" where
  "attempting s =
     ((case ws s of None \<Rightarrow> False | Some w \<Rightarrow> wired s w \<and> live s w) \<and>
      \<not> forcedClose s \<and> retry_timers s = [] \<and>
      list_all (\<lambda>t. fst t < nextTimer s) (timers s) \<and>
      maxReconnectAttempts s = None)"

text \<open>
  Attempts that fail repeatedly: the transport in flight reports its closure with \<open>ev\<close>, the
  retry this sets fires, and so on, \<open>n\<close> times; the result is the delays of the retries, in
  the order they were set.
\<close>

fun failures :: "nat \<Rightarrow> close_event \<Rightarrow> rws \<Rightarrow> real list" where
  "failures 0 ev s = []"
| "failures (Suc n) ev s =
     (case ws s of
        None \<Rightarrow> []
      | Some w \<Rightarrow>
          (let s1 = step (WsClose w ev) s in
           case retry_timers s1 of
             [] \<Rightarrow> []
           | t # _ \<Rightarrow> fst (snd t) # failures n ev (step (Fire (fst t)) s1)))"







section \<open>Lemmas about the operations\<close>

subsection \<open>The operations as record updates\<close>

text \<open>The logging, the handlers and \<^verbatim>\<open>open\<close>, each written as one update of the state
  (the fields in the order of the record).\<close>

lemma trace_upd:
  "trace l s = s\<lparr>console := (if debug s \<or> debugAll s then console s @ [l] else console s)\<rparr>"
  by (simp add: trace_def)

lemma update_ws_upd:
  "update_ws w f s =
     s\<lparr>transports := (if w < length (transports s)
                       then (transports s)[w := f (transports s ! w)] else transports s)\<rparr>"
  by (simp add: update_ws_def)


lemma onclose_retry:
  "lookup_ws s w = Some tr \<Longrightarrow> ws_handlers tr = Some h \<Longrightarrow> \<not> forcedClose s \<Longrightarrow>
     onclose w ev s =
       s\<lparr>readyState := CONNECTING, ws := None,
         timers := timers s @ [(nextTimer s, backoff s, Reconnect)],
         nextTimer := Suc (nextTimer s),
         events := events s @ EvConnecting (Some ev) #
                     (if \<not> reconnectAttempt h \<and> \<not> timedOut s then [EvClose ev] else []),
         console := (if \<not> reconnectAttempt h \<and> \<not> timedOut s \<and> (debug s \<or> debugAll s)
                     then console s @ [''onclose''] else console s)\<rparr>"
  by (simp add: onclose_def clearTimeout_def dispatchEvent_def trace_upd setTimeout_def
      Let_def backoff_def min_def)

lemma onclose_unwired:
  "lookup_ws s w = None \<or> (\<exists>tr. lookup_ws s w = Some tr \<and> ws_handlers tr = None) \<Longrightarrow>
     onclose w ev s = s"
  by (auto simp add: onclose_def)

lemma open_rws_abandoned:
  "b \<Longrightarrow> cap_exceeded (maxReconnectAttempts s) (reconnectAttempts s) \<Longrightarrow>
     open_rws b s =
       s\<lparr>ws := Some (length (transports s)),
         transports := transports s @ [fresh_transport s None]\<rparr>"
  by (simp add: open_rws_def new_WebSocket_def update_ws_upd
      fresh_transport_def Let_def)

lemma open_rws_attempt:
  "\<not> (b \<and> cap_exceeded (maxReconnectAttempts s) (reconnectAttempts s)) \<Longrightarrow>
     open_rws b s =
       s\<lparr>reconnectAttempts := (if b then reconnectAttempts s else 0),
         ws := Some (length (transports s)),
         transports := transports s @
           [fresh_transport s (Some \<lparr>reconnectAttempt = b, timeout = nextTimer s\<rparr>)],
         timers := timers s @
           [(nextTimer s, timeoutInterval s, ConnectionTimeout (length (transports s)))],
         nextTimer := Suc (nextTimer s),
         events := (if b then events s else events s @ [EvConnecting None]),
         console := (if debug s \<or> debugAll s then console s @ [''attempt-connect'']
                     else console s)\<rparr>"
  by (simp add: open_rws_def new_WebSocket_def update_ws_upd
      fresh_transport_def dispatchEvent_def trace_upd setTimeout_def Let_def)


subsection \<open>The attempt count, step by step\<close>

lemma reconnectAttempts_onclose [simp]:
  "reconnectAttempts (onclose w ev s) = reconnectAttempts s"
  by (simp add: onclose_def clearTimeout_def dispatchEvent_def trace_upd setTimeout_def
      Let_def split: option.splits)

lemma reconnectAttempts_ws_close [simp]:
  "reconnectAttempts (ws_close w c r s) = reconnectAttempts s"
  by (simp add: ws_close_def update_ws_upd split: option.splits)

lemma reconnectAttempts_open_rws:
  "reconnectAttempts (open_rws b s) = (if b then reconnectAttempts s else 0)"
  by (cases "b \<and> cap_exceeded (maxReconnectAttempts s) (reconnectAttempts s)")
     (simp_all add: open_rws_abandoned open_rws_attempt)





subsection \<open>A transport reports its closure; a retry fires\<close>

lemma step_WsClose_retry:
  assumes "lookup_ws s w = Some tr" "ws_handlers tr = Some h" "ws_readyState tr \<noteq> CLOSED"
    "\<not> forcedClose s"
  shows "step (WsClose w ev) s =
     s\<lparr>readyState := CONNECTING, ws := None,
       transports := (transports s)[w := tr\<lparr>ws_readyState := CLOSED\<rparr>],
       timers := timers s @ [(nextTimer s, backoff s, Reconnect)],
       nextTimer := Suc (nextTimer s),
       events := events s @ EvConnecting (Some ev) #
                   (if \<not> reconnectAttempt h \<and> \<not> timedOut s then [EvClose ev] else []),
       console := (if \<not> reconnectAttempt h \<and> \<not> timedOut s \<and> (debug s \<or> debugAll s)
                   then console s @ [''onclose''] else console s)\<rparr>"
proof -
  let ?u = "update_ws w (\<lambda>t. t\<lparr>ws_readyState := CLOSED\<rparr>) s"
  have len: "w < length (transports s)" and tr: "transports s ! w = tr"
    using assms(1) by (auto simp add: lookup_ws_def split: if_splits)
  have lu: "lookup_ws ?u w = Some (tr\<lparr>ws_readyState := CLOSED\<rparr>)"
    using len tr by (simp add: lookup_ws_def update_ws_upd)
  have hh: "ws_handlers (tr\<lparr>ws_readyState := CLOSED\<rparr>) = Some h"
    using assms(2) by simp
  have nf: "\<not> forcedClose ?u"
    using assms(4) by (simp add: update_ws_upd)
  have b: "backoff ?u = backoff s"
    by (simp add: backoff_def update_ws_upd)
  have "step (WsClose w ev) s = onclose w ev ?u"
    using assms(1,3) by (simp add: status_def)
  then show ?thesis
    unfolding onclose_retry [OF lu hh nf, of ev] b using len tr by (simp add: update_ws_upd)
qed


lemma step_WsClose_unwired:
  assumes "lookup_ws s w = Some tr" "ws_handlers tr = None" "ws_readyState tr \<noteq> CLOSED"
  shows "step (WsClose w ev) s =
     s\<lparr>transports := (transports s)[w := tr\<lparr>ws_readyState := CLOSED\<rparr>]\<rparr>"
proof -
  let ?u = "update_ws w (\<lambda>t. t\<lparr>ws_readyState := CLOSED\<rparr>) s"
  have len: "w < length (transports s)" and tr: "transports s ! w = tr"
    using assms(1) by (auto simp add: lookup_ws_def split: if_splits)
  have lu: "lookup_ws ?u w = Some (tr\<lparr>ws_readyState := CLOSED\<rparr>)"
    using len tr by (simp add: lookup_ws_def update_ws_upd)
  have "onclose w ev ?u = ?u"
    by (rule onclose_unwired) (use lu assms(2) in simp)
  moreover have "step (WsClose w ev) s = onclose w ev ?u"
    using assms(1,3) by (simp add: status_def)
  ultimately show ?thesis
    using len tr by (simp add: update_ws_upd)
qed

lemma step_WsClose_disabled:
  "lookup_ws s w = None \<or> (\<exists>tr. lookup_ws s w = Some tr \<and> ws_readyState tr = CLOSED) \<Longrightarrow>
     step (WsClose w ev) s = s"
  by (auto simp add: status_def)

lemma step_Fire_Reconnect:
  "pending s i = Some Reconnect \<Longrightarrow>
     step (Fire i) s =
       open_rws True (s\<lparr>timers := filter (\<lambda>t. fst t \<noteq> i) (timers s),
                        reconnectAttempts := Suc (reconnectAttempts s)\<rparr>)"
  by (simp add: reconnect_def clearTimeout_def)

subsection \<open>One failure and the retry after it\<close>

text \<open>From a state with an attempt in flight, the failure sets one retry with the backoff
  delay, and the firing of that retry leads to such a state again, the count one higher.\<close>

lemma attemptingE:
  assumes "attempting s"
  obtains w tr h where "ws s = Some w" "lookup_ws s w = Some tr" "ws_handlers tr = Some h"
    "ws_readyState tr \<noteq> CLOSED" "\<not> forcedClose s" "retry_timers s = []"
    "\<forall>t \<in> set (timers s). fst t < nextTimer s" "maxReconnectAttempts s = None"
  using assms
  by (auto simp add: attempting_def wired_def live_def list_all_iff split: option.splits)

lemma map_of_append_fresh:
  "k \<notin> fst ` set xs \<Longrightarrow> map_of (xs @ [(k, v)]) k = Some v"
  by (induction xs) auto

lemma fail_then_retry:
  fixes ev :: close_event
  assumes "attempting s" and "ws s = Some w"
  defines "s1 \<equiv> step (WsClose w ev) s"
  defines "s2 \<equiv> step (Fire (nextTimer s)) s1"
  shows "retry_timers s1 = [(nextTimer s, backoff s, Reconnect)]"
    and "attempting s2"
    and "reconnectAttempts s2 = Suc (reconnectAttempts s)"
    and "reconnectInterval s2 = reconnectInterval s"
    and "reconnectDecay s2 = reconnectDecay s"
    and "maxReconnectInterval s2 = maxReconnectInterval s"
proof -
  from assms(1) obtain w' tr h where a: "ws s = Some w'" "lookup_ws s w' = Some tr"
    "ws_handlers tr = Some h" "ws_readyState tr \<noteq> CLOSED" "\<not> forcedClose s"
    "retry_timers s = []" "\<forall>t \<in> set (timers s). fst t < nextTimer s"
    "maxReconnectAttempts s = None"
    by (rule attemptingE)
  from a(1) assms(2) have w: "w' = w" by simp
  have len: "w < length (transports s)"
    using a(2) w by (auto simp add: lookup_ws_def split: if_splits)
  note s1 = step_WsClose_retry [OF a(2) [unfolded w] a(3) a(4) a(5), of ev, folded s1_def]
  show r1: "retry_timers s1 = [(nextTimer s, backoff s, Reconnect)]"
    using a(6) by (simp add: s1 retry_timers_def)
  have fresh: "nextTimer s \<notin> fst ` set (timers s)"
    using a(7) by auto
  have pend: "pending s1 (nextTimer s) = Some Reconnect"
    using map_of_append_fresh [OF fresh, of "(backoff s, Reconnect)"]
    by (simp add: pending_def s1)
  have keep: "filter (\<lambda>t. fst t \<noteq> nextTimer s) (timers s) = timers s"
    using a(7) by (auto simp add: filter_id_conv)
  define c where "c = s1\<lparr>timers := filter (\<lambda>t. fst t \<noteq> nextTimer s) (timers s1),
                        reconnectAttempts := Suc (reconnectAttempts s1)\<rparr>"
  have nocap: "\<not> (True \<and> cap_exceeded (maxReconnectAttempts c) (reconnectAttempts c))"
    using a(8) by (simp add: cap_exceeded_def c_def s1)
  have s2: "s2 = open_rws True c"
    unfolding s2_def c_def by (rule step_Fire_Reconnect [OF pend])
  note s2' = s2 [unfolded open_rws_attempt [OF nocap]]
  show "attempting s2"
    using a(3-8) len keep
    by (simp add: s2' c_def s1 attempting_def wired_def
        live_def lookup_ws_def retry_timers_def fresh_transport_def list_all_iff nth_append
        less_Suc_eq)
  show "reconnectAttempts s2 = Suc (reconnectAttempts s)"
    by (simp add: s2' c_def s1)
  show "reconnectInterval s2 = reconnectInterval s"
    by (simp add: s2' c_def s1)
  show "reconnectDecay s2 = reconnectDecay s"
    by (simp add: s2' c_def s1)
  show "maxReconnectInterval s2 = maxReconnectInterval s"
    by (simp add: s2' c_def s1)
qed

lemma failures_attempting:
  "attempting s \<Longrightarrow>
     failures n ev s =
       map (\<lambda>k. min (reconnectInterval s * reconnectDecay s ^ (reconnectAttempts s + k))
                    (maxReconnectInterval s)) [0..<n]"
proof (induction n arbitrary: s)
  case 0
  then show ?case by simp
next
  case (Suc n)
  from Suc.prems obtain w where w: "ws s = Some w"
    by (auto elim: attemptingE)
  define s1 where "s1 = step (WsClose w ev) s"
  define s2 where "s2 = step (Fire (nextTimer s)) s1"
  note fr = fail_then_retry [OF Suc.prems w, of ev, folded s1_def s2_def]
  have "failures (Suc n) ev s = backoff s # failures n ev s2"
    using w fr(1) by (simp add: Let_def s1_def [symmetric] s2_def [symmetric] del: step.simps)
  also have "failures n ev s2 =
      map (\<lambda>k. min (reconnectInterval s * reconnectDecay s ^ (Suc (reconnectAttempts s) + k))
                   (maxReconnectInterval s)) [0..<n]"
    using Suc.IH [OF fr(2)] by (simp only: fr(3-6))
  also have "backoff s # \<dots> =
      map (\<lambda>k. min (reconnectInterval s * reconnectDecay s ^ (reconnectAttempts s + k))
                   (maxReconnectInterval s)) [0..<Suc n]"
    by (simp add: backoff_def upt_conv_Cons map_Suc_upt [symmetric] del: upt_Suc)
  finally show ?case .
qed

subsection \<open>The state after construction\<close>

lemma constructed:
  "opt_automaticOpen opts \<noteq> Some False \<Longrightarrow>
     ReconnectingWebSocket u ps opts dbg report =
       \<lparr>debug = (case opt_debug opts of None \<Rightarrow> False | Some v \<Rightarrow> v),
        automaticOpen = True,
        reconnectInterval = (case opt_reconnectInterval opts of None \<Rightarrow> 1000 | Some v \<Rightarrow> v),
        maxReconnectInterval =
          (case opt_maxReconnectInterval opts of None \<Rightarrow> 30000 | Some v \<Rightarrow> v),
        reconnectDecay = (case opt_reconnectDecay opts of None \<Rightarrow> 3 / 2 | Some v \<Rightarrow> v),
        timeoutInterval = (case opt_timeoutInterval opts of None \<Rightarrow> 2000 | Some v \<Rightarrow> v),
        maxReconnectAttempts =
          (case opt_maxReconnectAttempts opts of None \<Rightarrow> None | Some v \<Rightarrow> v),
        binaryType = (case opt_binaryType opts of None \<Rightarrow> ''blob'' | Some v \<Rightarrow> v),
        url = u,
        protocols = ps,
        reconnectAttempts = 0,
        readyState = CONNECTING,
        protocol = None,
        ws = Some 0,
        forcedClose = False,
        timedOut = False,
        debugAll = dbg,
        closeReport = report,
        transports =
          [\<lparr>ws_url = u,
            ws_protocols = (case ps of None \<Rightarrow> [] | Some p \<Rightarrow> p),
            ws_binaryType = (case opt_binaryType opts of None \<Rightarrow> ''blob'' | Some v \<Rightarrow> v),
            ws_readyState = CONNECTING,
            ws_protocol = [],
            ws_handlers = Some \<lparr>reconnectAttempt = False, timeout = 0\<rparr>,
            ws_closeArgs = None,
            ws_sent = []\<rparr>],
        timers =
          [(0, (case opt_timeoutInterval opts of None \<Rightarrow> 2000 | Some v \<Rightarrow> v),
            ConnectionTimeout 0)],
        nextTimer = Suc 0,
        events = [EvConnecting None],
        console = (if (case opt_debug opts of None \<Rightarrow> False | Some v \<Rightarrow> v) \<or> dbg
                   then [''attempt-connect''] else [])\<rparr>"
  by (cases "opt_automaticOpen opts")
     (simp_all add: ReconnectingWebSocket_def open_rws_attempt fresh_transport_def Let_def)

lemma constructed_attempting:
  "opt_automaticOpen opts \<noteq> Some False \<Longrightarrow>
   opt_maxReconnectAttempts opts = None \<or> opt_maxReconnectAttempts opts = Some None \<Longrightarrow>
     attempting (ReconnectingWebSocket u ps opts dbg report)"
  by (auto simp add: constructed attempting_def wired_def live_def lookup_ws_def
      retry_timers_def)


subsection \<open>The invariant of executions with a disciplined caller\<close>















subsection \<open>\<^verbatim>\<open>forcedClose\<close> and the transport's \<^verbatim>\<open>close\<close>\<close>

text \<open>No operation resets \<^verbatim>\<open>forcedClose\<close>. A call of a transport's \<^verbatim>\<open>close\<close> does
  nothing on a transport that is not live, and otherwise either marks it closing or runs
  \<^verbatim>\<open>ws.onclose\<close> at once.\<close>

lemma transports_onclose [simp]: "transports (onclose w ev s) = transports s"
  by (simp add: onclose_def clearTimeout_def dispatchEvent_def trace_upd setTimeout_def
      Let_def split: option.splits)

lemma forcedClose_onclose [simp]: "forcedClose (onclose w ev s) = forcedClose s"
  by (simp add: onclose_def clearTimeout_def dispatchEvent_def trace_upd setTimeout_def
      Let_def split: option.splits)

lemma forcedClose_ws_close [simp]: "forcedClose (ws_close w c r s) = forcedClose s"
  by (simp add: ws_close_def update_ws_upd split: option.splits)

lemma forcedClose_open_rws [simp]: "forcedClose (open_rws b s) = forcedClose s"
  by (cases "b \<and> cap_exceeded (maxReconnectAttempts s) (reconnectAttempts s)")
     (simp_all add: open_rws_abandoned open_rws_attempt)

lemma forcedClose_onopen [simp]: "forcedClose (onopen w s) = forcedClose s"
  by (simp add: onopen_def clearTimeout_def dispatchEvent_def trace_upd update_ws_upd
      Let_def split: option.splits)

lemma forcedClose_refresh [simp]: "forcedClose (refresh s) = forcedClose s"
  by (simp add: refresh_def split: option.splits)

lemma forcedClose_close [simp]: "forcedClose (close c r s)"
  by (simp add: close_def Let_def split: option.splits)









section \<open>The backoff delay\<close>

text \<open>
  Claim C1. Every retry that \<^verbatim>\<open>ws.onclose\<close> sets (the transport has the manager's
  handlers and the caller has not closed) is set with the delay
  \<open>min (reconnectInterval * reconnectDecay ^ reconnectAttempts) maxReconnectInterval\<close>,
  the code's conditional being that minimum; \<^verbatim>\<open>ws.onclose\<close> reads the count and leaves
  it, the retry's callback increments it. When attempts fail repeatedly the \<open>n\<close> delays are
  those of the counts \<open>reconnectAttempts\<close>, \<open>reconnectAttempts + 1\<close>, ...; with
  \<open>reconnectInterval = 1000\<close>, \<open>reconnectDecay = 2\<close> and \<open>maxReconnectInterval = 5000\<close>
  a newly constructed manager's delays are 1000, 2000, 4000, 5000, 5000.
\<close>

theorem backoff_delay:
  "(lookup_ws s w = Some tr \<and> ws_handlers tr = Some h \<and> \<not> forcedClose s \<longrightarrow>
      timers (onclose w ev s) = timers s @ [(nextTimer s, backoff s, Reconnect)] \<and>
      reconnectAttempts (onclose w ev s) = reconnectAttempts s) \<and>
   reconnectAttempts (reconnect s) = Suc (reconnectAttempts s) \<and>
   (attempting s \<longrightarrow>
      failures n ev s =
        map (\<lambda>k. min (reconnectInterval s * reconnectDecay s ^ (reconnectAttempts s + k))
                     (maxReconnectInterval s)) [0..<n]) \<and>
   failures 5 ev
     (ReconnectingWebSocket u ps
        (no_options\<lparr>opt_reconnectInterval := Some 1000,
                     opt_maxReconnectInterval := Some 5000,
                     opt_reconnectDecay := Some 2\<rparr>) dbg report)
     = [1000, 2000, 4000, 5000, 5000]"
proof -
  let ?s = "ReconnectingWebSocket u ps
        (no_options\<lparr>opt_reconnectInterval := Some 1000,
                     opt_maxReconnectInterval := Some 5000,
                     opt_reconnectDecay := Some 2\<rparr>) dbg report"
  have att: "attempting ?s"
    by (rule constructed_attempting) (simp_all add: no_options_def)
  have cfg: "reconnectInterval ?s = 1000" "reconnectDecay ?s = 2"
    "maxReconnectInterval ?s = 5000" "reconnectAttempts ?s = 0"
    by (simp_all add: constructed no_options_def)
  have five: "[0..<5] = [0, 1, 2, 3, 4::nat]"
    by (simp add: upt_rec)
  have "failures 5 ev ?s = [1000, 2000, 4000, 5000, 5000]"
    unfolding failures_attempting [OF att] cfg five by simp
  moreover have "lookup_ws s w = Some tr \<and> ws_handlers tr = Some h \<and> \<not> forcedClose s \<longrightarrow>
      timers (onclose w ev s) = timers s @ [(nextTimer s, backoff s, Reconnect)]"
    by (simp add: onclose_retry)
  moreover have "reconnectAttempts (reconnect s) = Suc (reconnectAttempts s)"
    by (simp add: reconnect_def reconnectAttempts_open_rws)
  ultimately show ?thesis
    by (simp add: failures_attempting)
qed

theorem backoff_delay_witness:
  "attempting (ReconnectingWebSocket ''ws://h'' None no_options False None) \<and>
   lookup_ws (ReconnectingWebSocket ''ws://h'' None no_options False None) 0 =
     Some (fresh_transport (ReconnectingWebSocket ''ws://h'' None no_options False None)
             (Some \<lparr>reconnectAttempt = False, timeout = 0\<rparr>)) \<and>
   \<not> forcedClose (ReconnectingWebSocket ''ws://h'' None no_options False None) \<and>
   timers (onclose 0 (CloseEvent 1006 [] False)
             (ReconnectingWebSocket ''ws://h'' None no_options False None)) =
     [(0, 2000, ConnectionTimeout 0), (1, 1000, Reconnect)] \<and>
   failures 3 (CloseEvent 1006 [] False)
     (ReconnectingWebSocket ''ws://h'' None no_options False None) = [1000, 1500, 2250]"
proof -
  let ?s = "ReconnectingWebSocket ''ws://h'' None no_options False None"
  let ?tr = "fresh_transport ?s (Some \<lparr>reconnectAttempt = False, timeout = 0\<rparr>)"
  have att: "attempting ?s"
    by (rule constructed_attempting) (simp_all add: no_options_def)
  have lk: "lookup_ws ?s 0 = Some ?tr"
    by (simp add: constructed no_options_def lookup_ws_def fresh_transport_def)
  have h: "ws_handlers ?tr = Some \<lparr>reconnectAttempt = False, timeout = 0\<rparr>"
    by (simp add: fresh_transport_def)
  have nf: "\<not> forcedClose ?s"
    by (simp add: constructed no_options_def)
  have three: "[0..<3] = [0, 1, 2::nat]"
    by (simp add: upt_rec)
  have vals: "timers ?s = [(0, 2000, ConnectionTimeout 0)]" "nextTimer ?s = 1"
    "backoff ?s = 1000" "reconnectInterval ?s = 1000" "reconnectDecay ?s = 3 / 2"
    "maxReconnectInterval ?s = 30000" "reconnectAttempts ?s = 0"
    by (simp_all add: constructed no_options_def backoff_def)
  from backoff_delay [of ?s 0 ?tr "\<lparr>reconnectAttempt = False, timeout = 0\<rparr>"
      "CloseEvent 1006 [] False" 3]
  show ?thesis
    using att lk h nf by (simp add: vals three power2_eq_square)
qed

section \<open>Retries after the caller has closed\<close>

text \<open>
  Claim C2 says that no transport is created once \<^verbatim>\<open>close\<close> has been called, whatever
  timers fire. The code tests \<^verbatim>\<open>forcedClose\<close> in \<^verbatim>\<open>ws.onclose\<close> only: a retry that is
  already pending when \<^verbatim>\<open>close\<close> is called is not cleared, and its callback calls
  \<^verbatim>\<open>open(true)\<close>, which does not look at \<^verbatim>\<open>forcedClose\<close>. Here the first transport
  fails, the caller closes during the backoff wait (one transport so far, \<^verbatim>\<open>forcedClose\<close>
  set), and the retry fires: a second transport is created, connecting and with the manager's
  handlers, and when it opens the manager is \<^verbatim>\<open>OPEN\<close>.
\<close>

theorem retry_after_close_creates_transport:
  "length (transports
     (run (ReconnectingWebSocket ''ws://h'' None no_options False None)
        [WsClose 0 (CloseEvent 1006 [] False), CallClose None None])) = 1 \<and>
   forcedClose
     (run (ReconnectingWebSocket ''ws://h'' None no_options False None)
        [WsClose 0 (CloseEvent 1006 [] False), CallClose None None]) \<and>
   length (transports
     (run (ReconnectingWebSocket ''ws://h'' None no_options False None)
        [WsClose 0 (CloseEvent 1006 [] False), CallClose None None, Fire 1])) = 2 \<and>
   ws (run (ReconnectingWebSocket ''ws://h'' None no_options False None)
        [WsClose 0 (CloseEvent 1006 [] False), CallClose None None, Fire 1]) = Some 1 \<and>
   status
     (run (ReconnectingWebSocket ''ws://h'' None no_options False None)
        [WsClose 0 (CloseEvent 1006 [] False), CallClose None None, Fire 1]) 1 =
     Some CONNECTING \<and>
   wired
     (run (ReconnectingWebSocket ''ws://h'' None no_options False None)
        [WsClose 0 (CloseEvent 1006 [] False), CallClose None None, Fire 1]) 1 \<and>
   readyState
     (run (ReconnectingWebSocket ''ws://h'' None no_options False None)
        [WsClose 0 (CloseEvent 1006 [] False), CallClose None None, Fire 1, WsOpen 1 []]) =
     OPEN"
  by code_simp

section \<open>The cap on retries\<close>

text \<open>
  Claim C3 says that a retry beyond \<^verbatim>\<open>maxReconnectAttempts\<close> creates no transport and fires
  no event. \<^verbatim>\<open>open\<close> fires no event then, sets no timer and assigns no handler, but it has
  already created the transport and assigned it to \<^verbatim>\<open>ws\<close> when it tests the cap. With
  \<^verbatim>\<open>maxReconnectAttempts = 3\<close>, after the first attempt and three retries have failed
  there are four transports, none live; the fourth retry makes \<^verbatim>\<open>reconnectAttempts\<close> 4 and
  leaves a fifth transport, connecting, without handlers, held by \<^verbatim>\<open>ws\<close>; the events are
  those dispatched before.
\<close>

theorem abandoned_retry_creates_transport:
  "length (transports
     (run (ReconnectingWebSocket ''ws://h'' None
             (no_options\<lparr>opt_maxReconnectAttempts := Some (Some 3)\<rparr>) False None)
        [WsClose 0 (CloseEvent 1006 [] False), Fire 1,
         WsClose 1 (CloseEvent 1006 [] False), Fire 3,
         WsClose 2 (CloseEvent 1006 [] False), Fire 5,
         WsClose 3 (CloseEvent 1006 [] False)])) = 4 \<and>
   live_transports
     (run (ReconnectingWebSocket ''ws://h'' None
             (no_options\<lparr>opt_maxReconnectAttempts := Some (Some 3)\<rparr>) False None)
        [WsClose 0 (CloseEvent 1006 [] False), Fire 1,
         WsClose 1 (CloseEvent 1006 [] False), Fire 3,
         WsClose 2 (CloseEvent 1006 [] False), Fire 5,
         WsClose 3 (CloseEvent 1006 [] False)]) = [] \<and>
   reconnectAttempts
     (run (ReconnectingWebSocket ''ws://h'' None
             (no_options\<lparr>opt_maxReconnectAttempts := Some (Some 3)\<rparr>) False None)
        [WsClose 0 (CloseEvent 1006 [] False), Fire 1,
         WsClose 1 (CloseEvent 1006 [] False), Fire 3,
         WsClose 2 (CloseEvent 1006 [] False), Fire 5,
         WsClose 3 (CloseEvent 1006 [] False), Fire 7]) = 4 \<and>
   length (transports
     (run (ReconnectingWebSocket ''ws://h'' None
             (no_options\<lparr>opt_maxReconnectAttempts := Some (Some 3)\<rparr>) False None)
        [WsClose 0 (CloseEvent 1006 [] False), Fire 1,
         WsClose 1 (CloseEvent 1006 [] False), Fire 3,
         WsClose 2 (CloseEvent 1006 [] False), Fire 5,
         WsClose 3 (CloseEvent 1006 [] False), Fire 7])) = 5 \<and>
   ws (run (ReconnectingWebSocket ''ws://h'' None
             (no_options\<lparr>opt_maxReconnectAttempts := Some (Some 3)\<rparr>) False None)
        [WsClose 0 (CloseEvent 1006 [] False), Fire 1,
         WsClose 1 (CloseEvent 1006 [] False), Fire 3,
         WsClose 2 (CloseEvent 1006 [] False), Fire 5,
         WsClose 3 (CloseEvent 1006 [] False), Fire 7]) = Some 4 \<and>
   status
     (run (ReconnectingWebSocket ''ws://h'' None
             (no_options\<lparr>opt_maxReconnectAttempts := Some (Some 3)\<rparr>) False None)
        [WsClose 0 (CloseEvent 1006 [] False), Fire 1,
         WsClose 1 (CloseEvent 1006 [] False), Fire 3,
         WsClose 2 (CloseEvent 1006 [] False), Fire 5,
         WsClose 3 (CloseEvent 1006 [] False), Fire 7]) 4 = Some CONNECTING \<and>
   \<not> wired
     (run (ReconnectingWebSocket ''ws://h'' None
             (no_options\<lparr>opt_maxReconnectAttempts := Some (Some 3)\<rparr>) False None)
        [WsClose 0 (CloseEvent 1006 [] False), Fire 1,
         WsClose 1 (CloseEvent 1006 [] False), Fire 3,
         WsClose 2 (CloseEvent 1006 [] False), Fire 5,
         WsClose 3 (CloseEvent 1006 [] False), Fire 7]) 4 \<and>
   events
     (run (ReconnectingWebSocket ''ws://h'' None
             (no_options\<lparr>opt_maxReconnectAttempts := Some (Some 3)\<rparr>) False None)
        [WsClose 0 (CloseEvent 1006 [] False), Fire 1,
         WsClose 1 (CloseEvent 1006 [] False), Fire 3,
         WsClose 2 (CloseEvent 1006 [] False), Fire 5,
         WsClose 3 (CloseEvent 1006 [] False), Fire 7]) =
   events
     (run (ReconnectingWebSocket ''ws://h'' None
             (no_options\<lparr>opt_maxReconnectAttempts := Some (Some 3)\<rparr>) False None)
        [WsClose 0 (CloseEvent 1006 [] False), Fire 1,
         WsClose 1 (CloseEvent 1006 [] False), Fire 3,
         WsClose 2 (CloseEvent 1006 [] False), Fire 5,
         WsClose 3 (CloseEvent 1006 [] False)])"
  by code_simp

section \<open>The connection timeout\<close>

text \<open>
  Claim C4 says that an attempt aborted by the connection timeout is closed, is followed by
  exactly one retry, and is not reported by a \<open>close\<close> event, \<^verbatim>\<open>timedOut\<close> suppressing
  the report. The timeout's callback sets \<^verbatim>\<open>timedOut\<close> only around its call of
  \<^verbatim>\<open>localWs.close()\<close>. When the transport delivers its close event after that call has
  returned, \<^verbatim>\<open>ws.onclose\<close> finds \<^verbatim>\<open>timedOut\<close> false again: for the first attempt of a
  newly constructed manager the transport is closing and \<^verbatim>\<open>timedOut\<close> is false after the
  timeout, and the close event then dispatches \<open>connecting\<close> and \<open>close\<close> and sets one
  retry. Only when the transport calls \<^verbatim>\<open>onclose\<close> from within \<^verbatim>\<open>close\<close> is the
  \<open>close\<close> event left out (\<open>connecting\<close> alone, and one retry).
\<close>

theorem timeout_abort_reports_close:
  "events
     (run (ReconnectingWebSocket ''ws://h'' None no_options False None)
        [Fire 0, WsClose 0 (CloseEvent 1006 [] False)]) =
     [EvConnecting None, EvConnecting (Some (CloseEvent 1006 [] False)),
      EvClose (CloseEvent 1006 [] False)] \<and>
   status (run (ReconnectingWebSocket ''ws://h'' None no_options False None) [Fire 0]) 0 =
     Some CLOSING \<and>
   \<not> timedOut (run (ReconnectingWebSocket ''ws://h'' None no_options False None) [Fire 0]) \<and>
   retry_timers
     (run (ReconnectingWebSocket ''ws://h'' None no_options False None)
        [Fire 0, WsClose 0 (CloseEvent 1006 [] False)]) = [(1, 1000, Reconnect)] \<and>
   events
     (run (ReconnectingWebSocket ''ws://h'' None no_options False
             (Some (CloseEvent 1006 [] False)))
        [Fire 0]) =
     [EvConnecting None, EvConnecting (Some (CloseEvent 1006 [] False))] \<and>
   retry_timers
     (run (ReconnectingWebSocket ''ws://h'' None no_options False
             (Some (CloseEvent 1006 [] False)))
        [Fire 0]) = [(1, 1000, Reconnect)]"
  by code_simp

section \<open>The attempt count\<close>



section \<open>At most one live transport\<close>




section \<open>Sending without a transport\<close>

text \<open>
  Claim C7. While the variable \<^verbatim>\<open>ws\<close> holds no transport, a call of \<^verbatim>\<open>send\<close> throws
  the string \<^verbatim>\<open>INVALID_STATE_ERR : Pausing to reconnect websocket\<close> to its caller, and the
  state after the call is the state before it: the data is kept nowhere.
\<close>

theorem send_without_transport:
  "ws s = None \<Longrightarrow>
     send d s = Inl (Thrown ''INVALID_STATE_ERR : Pausing to reconnect websocket'') \<and>
     step (CallSend d) s = s"
  by (simp add: send_def)

theorem send_without_transport_witness:
  "ws (run (ReconnectingWebSocket ''ws://h'' None no_options False None)
         [WsClose 0 (CloseEvent 1006 [] False)]) = None \<and>
   send ''hello''
     (run (ReconnectingWebSocket ''ws://h'' None no_options False None)
        [WsClose 0 (CloseEvent 1006 [] False)])
     = Inl (Thrown ''INVALID_STATE_ERR : Pausing to reconnect websocket'') \<and>
   step (CallSend ''hello'')
     (run (ReconnectingWebSocket ''ws://h'' None no_options False None)
        [WsClose 0 (CloseEvent 1006 [] False)])
     = run (ReconnectingWebSocket ''ws://h'' None no_options False None)
         [WsClose 0 (CloseEvent 1006 [] False)]"
proof -
  have h: "ws (run (ReconnectingWebSocket ''ws://h'' None no_options False None)
                 [WsClose 0 (CloseEvent 1006 [] False)]) = None"
    by code_simp
  show ?thesis
    using h send_without_transport [OF h, of "''hello''"] by simp
qed

section \<open>Closing\<close>



section \<open>Transport errors\<close>



section \<open>Refreshing\<close>




end
